theory Spec2Isabelle
  imports Main "HOL-Library.Word"
begin

unbundle bit_operations_syntax

section \<open>The elaboration driver (src/code/ast_gen.cpp)\<close>

subsection \<open>What the driver sees of its surroundings\<close>

text \<open>
  \<^verbatim>\<open>tinyxml2.h\<close> is not among the sources. Its \<^verbatim>\<open>enum XMLError\<close> is read through the
  integer the driver prints with \<^verbatim>\<open><<\<close>; the enumerator \<^verbatim>\<open>XML_SUCCESS\<close> is the value 0
  there. The driver only compares an \<^verbatim>\<open>XMLError\<close> with \<^verbatim>\<open>XML_SUCCESS\<close> and prints it.
\<close>

type_synonym XMLError = int

definition XML_SUCCESS :: XMLError where
  "XML_SUCCESS = 0"

text \<open>
  The surroundings of one run. The driver reads two things only: the \<^verbatim>\<open>int\<close> that
  \<^verbatim>\<open>std::system\<close> returns for a command line (\<open>system_ret\<close>) and the \<^verbatim>\<open>XMLError\<close> that
  \<^verbatim>\<open>XMLDocument::LoadFile\<close> returns for a path (\<open>LoadFile_ret\<close>). The other four fields
  describe facts of the run that the driver never reads: what the child process wrote to
  its standard error, where the markup parser stopped (line, column), which files exist,
  and the exit status of the elaborator process that the command line started
  (\<open>elaborator_exit\<close>), which is not the same thing as the \<^verbatim>\<open>int\<close> that \<^verbatim>\<open>std::system\<close>
  returns: that one is the report of the command processor that ran the line. They are
  there so that statements about those facts can be written down.
\<close>

record world =
  system_ret :: "string \<Rightarrow> int"
  LoadFile_ret :: "string \<Rightarrow> XMLError"
  child_stderr :: "string \<Rightarrow> string list"
  LoadFile_errpos :: "string \<Rightarrow> nat \<times> nat"
  file_exists :: "string \<Rightarrow> bool"
  elaborator_exit :: "string \<Rightarrow> int"

text \<open>
  One insertion into \<^verbatim>\<open>std::cerr\<close>: a string literal, an integer, or \<^verbatim>\<open>std::endl\<close>.
\<close>

datatype ostream_item = Str string | Num int | Endl

text \<open>
  The observable actions of the driver, in the order it performs them:
  \<^verbatim>\<open>std::system(cmd.c_str())\<close>, which hands one C string to the host's command processor;
  one statement writing to \<^verbatim>\<open>std::cerr\<close>; and \<^verbatim>\<open>astDoc.LoadFile(path)\<close>.
\<close>

datatype event = System string | Cerr "ostream_item list" | LoadFile string

fun invokes_shell :: "event \<Rightarrow> bool" where
  "invokes_shell (System c) = True"
| "invokes_shell (Cerr items) = False"
| "invokes_shell (LoadFile p) = False"

fun is_LoadFile :: "event \<Rightarrow> bool" where
  "is_LoadFile (LoadFile p) = True"
| "is_LoadFile (System c) = False"
| "is_LoadFile (Cerr items) = False"

subsection \<open>runVerilatorAST\<close>

text \<open>
  Lines 9 to 13: the local \<^verbatim>\<open>cmd\<close>, built by concatenation (the stray \<^verbatim>\<open>2\<close> at the head
  of line 9 and the comment between the two additions are left out).
  \<^verbatim>\<open>
  std::string cmd = "verilator --xml-only --xml-output ";
  cmd += astXmlFile + " " + verilogFile;
  cmd += " -Wno-fatal";
  \<close>
\<close>

definition cmd :: "string \<Rightarrow> string \<Rightarrow> string" where
  "cmd verilogFile astXmlFile =
     (''verilator --xml-only --xml-output '' @ (astXmlFile @ '' '' @ verilogFile)) @ '' -Wno-fatal''"

text \<open>
  \<^verbatim>\<open>cmd.c_str()\<close> as \<^verbatim>\<open>std::system\<close> reads it: a C string ends at its first NUL byte, so
  what is handed over is the part of \<^verbatim>\<open>cmd\<close> before the first NUL byte, and all of \<^verbatim>\<open>cmd\<close>
  when it has none.
\<close>

definition c_str :: "string \<Rightarrow> string" where
  "c_str s = takeWhile (\<lambda>c. c \<noteq> CHR 0x00) s"

text \<open>
  Lines 15 to 21. The result is the returned \<^verbatim>\<open>bool\<close> together with the actions performed.
  \<^verbatim>\<open>
  int ret = std::system(cmd.c_str());
  if (ret != 0) {
      std::cerr << "Verilator failed with exit code " << ret << std::endl;
      return false;
  }
  return true;
  \<close>
\<close>

definition runVerilatorAST :: "world \<Rightarrow> string \<Rightarrow> string \<Rightarrow> bool \<times> event list" where
  "runVerilatorAST w verilogFile astXmlFile =
     (let c = c_str (cmd verilogFile astXmlFile);
          ret = system_ret w c
      in if ret \<noteq> 0
         then (False, [System c, Cerr [Str ''Verilator failed with exit code '', Num ret, Endl]])
         else (True, [System c]))"

subsection \<open>The top-level statements (lines 23 to 37)\<close>

text \<open>
  The statements after \<^verbatim>\<open>runVerilatorAST\<close> either leave with \<^verbatim>\<open>return 1\<close> or reach the end
  of the fragment with \<^verbatim>\<open>astDoc\<close> loaded. In the source the last string literal of the
  message is broken across lines 29 and 30; it is read as a closing parenthesis followed
  by a newline.
  \<^verbatim>\<open>
  tinyxml2::XMLDocument astDoc;
  if (runVerilatorAST("design.v", "ast.xml")) {
      tinyxml2::XMLError xmlErr = astDoc.LoadFile("ast.xml");
      if (xmlErr != tinyxml2::XML_SUCCESS) {
          std::cerr << "Error: could not load AST XML (error " << xmlErr << ")\n";
          return 1;
      }
  } else {
      return 1; // Verilator failed
  }
  \<close>
\<close>

datatype outcome = Return int | Loaded

definition pipeline :: "world \<Rightarrow> outcome \<times> event list" where
  "pipeline w =
     (case runVerilatorAST w ''design.v'' ''ast.xml'' of
        (True, t) \<Rightarrow>
          (let xmlErr = LoadFile_ret w ''ast.xml''
           in if xmlErr \<noteq> XML_SUCCESS
              then (Return 1,
                    t @ [LoadFile ''ast.xml'',
                         Cerr [Str ''Error: could not load AST XML (error '', Num xmlErr,
                               Str [CHR '')'', CHR 0x0A]]])
              else (Loaded, t @ [LoadFile ''ast.xml'']))
      | (False, t) \<Rightarrow> (Return 1, t))"

subsection \<open>The space-separated words of a string\<close>

text \<open>
  The maximal runs of characters other than the space character.
  \<open>words_from cur s\<close> reads \<open>s\<close> with the word begun so far in \<open>cur\<close>. This is a function of
  the string and nothing more. It is not what a command processor does with a command
  line: that one also divides at tabs and newlines and gives a meaning to quotes and to
  characters such as \<^verbatim>\<open>;\<close>, \<^verbatim>\<open>|\<close>, \<^verbatim>\<open>&\<close> and \<^verbatim>\<open>#\<close>, so the argument sequence that the
  elaborator receives is in general not \<open>blank_fields\<close> of the line.
\<close>

fun words_from :: "string \<Rightarrow> string \<Rightarrow> string list" where
  "words_from cur [] = (if cur = [] then [] else [cur])"
| "words_from cur (c # cs) =
     (if c = CHR '' ''
      then (if cur = [] then words_from [] cs else cur # words_from [] cs)
      else words_from (cur @ [c]) cs)"

definition blank_fields :: "string \<Rightarrow> string list" where
  "blank_fields s = words_from [] s"

text \<open>
  The characters that no command processor gives a meaning to: letters, digits and
  \<^verbatim>\<open>.\<close>, \<^verbatim>\<open>_\<close>, \<^verbatim>\<open>/\<close>, \<^verbatim>\<open>-\<close>. A plain path is a non-empty string of them; a plain line
  is a string of them and of spaces, in which there is nothing to interpret except the
  spaces between its words.
\<close>

definition plain_chars :: string where
  "plain_chars = ''abcdefghijklmnopqrstuvwxyzABCDEFGHIJKLMNOPQRSTUVWXYZ0123456789._/-''"

definition plain_char :: "char \<Rightarrow> bool" where
  "plain_char c = (c \<in> set plain_chars)"

definition plain_path :: "string \<Rightarrow> bool" where
  "plain_path p = (p \<noteq> [] \<and> list_all plain_char p)"

definition plain_or_space :: "char \<Rightarrow> bool" where
  "plain_or_space c = (plain_char c \<or> c = CHR '' '')"

definition plain_line :: "string \<Rightarrow> bool" where
  "plain_line s = list_all plain_or_space s"

subsection \<open>The specification's wording, for comparison\<close>

text \<open>
  The options of the specification's \<^verbatim>\<open>PipelineConfig\<close> that its argument builder reads.
\<close>

record PipelineConfig =
  source_path :: string
  output_path :: string
  suppress_fatal_warnings :: bool
  extra_flags :: "string list"

text \<open>
  The argument sequence in the specification's words: the executable name, the mandatory
  flags, the conditional flag, the extra flags in order, the source path last. It is not
  a translation of the source; it is compared with what \<^verbatim>\<open>cmd\<close> holds.
\<close>

definition spec_argv :: "PipelineConfig \<Rightarrow> string list" where
  "spec_argv cfg =
     [''verilator'', ''--xml-only'', ''--xml-output'', output_path cfg]
     @ (if suppress_fatal_warnings cfg then [''-Wno-fatal''] else [])
     @ extra_flags cfg
     @ [source_path cfg]"

text \<open>
  The configuration that the call \<^verbatim>\<open>runVerilatorAST("design.v", "ast.xml")\<close> stands for.
\<close>

definition config_design :: PipelineConfig where
  "config_design =
     \<lparr>source_path = ''design.v'', output_path = ''ast.xml'',
      suppress_fatal_warnings = True, extra_flags = []\<rparr>"

text \<open>
  The two failure values of the specification's taxonomy that a non-zero exit is sorted
  into, and the sorting in the specification's words. The specification leaves open what
  makes a line of the elaborator's diagnostics identifiable; the test is a parameter.
\<close>

datatype ErrorKind = ElaboratorError "string list" | ElaboratorCrashed int

definition spec_classify :: "(string \<Rightarrow> bool) \<Rightarrow> int \<Rightarrow> string list \<Rightarrow> ErrorKind" where
  "spec_classify identifiable exit_code stderr_lines =
     (if list_ex identifiable stderr_lines
      then ElaboratorError stderr_lines
      else ElaboratorCrashed exit_code)"

definition is_error_line :: "string \<Rightarrow> bool" where
  "is_error_line l = (take 6 l = ''%Error'')"

subsection \<open>Concrete runs\<close>

text \<open>
  A run in which the elaborator exits with status 1 after printing an error line, and the
  same run with nothing printed.
\<close>

definition world_fail_diag :: world where
  "world_fail_diag =
     \<lparr>system_ret = (\<lambda>c. 1), LoadFile_ret = (\<lambda>p. 0),
      child_stderr = (\<lambda>c. [''%Error: design.v:3:1: syntax error, unexpected endmodule'']),
      LoadFile_errpos = (\<lambda>p. (0, 0)), file_exists = (\<lambda>p. True),
      elaborator_exit = (\<lambda>c. 1)\<rparr>"

definition world_fail_silent :: world where
  "world_fail_silent = world_fail_diag\<lparr>child_stderr := (\<lambda>c. [])\<rparr>"

text \<open>A run in which no file exists and the elaborator therefore exits with status 1.\<close>

definition world_missing :: world where
  "world_missing = world_fail_silent\<lparr>file_exists := (\<lambda>p. False)\<rparr>"

text \<open>
  Two runs in which the elaborator succeeds and the markup does not parse: the same error
  code (6), the parser stopping at line 3, column 14 in one and at line 7, column 2 in the
  other.
\<close>

definition world_bad_markup :: world where
  "world_bad_markup =
     \<lparr>system_ret = (\<lambda>c. 0), LoadFile_ret = (\<lambda>p. 6),
      child_stderr = (\<lambda>c. []),
      LoadFile_errpos = (\<lambda>p. (3, 14)), file_exists = (\<lambda>p. True),
      elaborator_exit = (\<lambda>c. 0)\<rparr>"

definition world_bad_markup' :: world where
  "world_bad_markup' = world_bad_markup\<lparr>LoadFile_errpos := (\<lambda>p. (7, 2))\<rparr>"

text \<open>A run in which the elaborator succeeds and the markup loads.\<close>

definition world_ok :: world where
  "world_ok = world_bad_markup\<lparr>LoadFile_ret := (\<lambda>p. XML_SUCCESS)\<rparr>"


text \<open>A source path with a NUL byte in it: \<^verbatim>\<open>a\<close>, NUL, \<^verbatim>\<open>b.v\<close>.\<close>

definition path_with_NUL :: string where
  "path_with_NUL = [CHR ''a'', CHR 0x00, CHR ''b'', CHR ''.'', CHR ''v'']"

section \<open>The generated model of counter8 (src/samples/counter8/obj_dir)\<close>

subsection \<open>State\<close>

text \<open>
  The fields of \<^verbatim>\<open>Vcounter8___024root\<close> that the evaluation code touches. The header
  declaring them is not among the sources; the widths are those of the Verilator types the
  code names: \<^verbatim>\<open>CData\<close> is 8 bits (\<^verbatim>\<open>clk\<close>, \<^verbatim>\<open>rst_n\<close>, \<^verbatim>\<open>out\<close>, the previous-value
  copies, \<^verbatim>\<open>__VactContinue\<close>), \<^verbatim>\<open>IData\<close> is 32 bits (\<^verbatim>\<open>__VactIterCount\<close>), and a
  \<^verbatim>\<open>VlTriggerVec<2>\<close> is one 64-bit word (the code reads it with \<^verbatim>\<open>word(0U)\<close> against
  \<^verbatim>\<open>3ULL\<close>). The leading underscores of the C++ names are dropped.
\<close>

record Vcounter8___024root =
  clk :: "8 word"
  rst_n :: "8 word"
  out :: "8 word"
  Vtrigprevexpr___TOP__clk__0 :: "8 word"
  Vtrigprevexpr___TOP__rst_n__0 :: "8 word"
  VactTriggered :: "64 word"
  VnbaTriggered :: "64 word"
  VactIterCount :: "32 word"
  VactContinue :: "8 word"

subsection \<open>The sequential update\<close>

text \<open>
  The right-hand side of the assignment in \<^verbatim>\<open>nba_sequent__TOP__0\<close>, an \<^verbatim>\<open>IData\<close>:
  \<^verbatim>\<open>((IData)(rst_n) ? (0xffU & ((IData)(1U) + (IData)(out))) : 0U)\<close>.
\<close>

definition nba_sequent_rhs :: "Vcounter8___024root \<Rightarrow> 32 word" where
  "nba_sequent_rhs vlSelf =
     (if (ucast (rst_n vlSelf) :: 32 word) \<noteq> 0
      then 0xff AND (1 + (ucast (out vlSelf) :: 32 word))
      else 0)"

text \<open>The assignment stores it in the \<^verbatim>\<open>CData\<close> field \<^verbatim>\<open>out\<close>, keeping the low 8 bits.\<close>

definition Vcounter8___024root___nba_sequent__TOP__0 ::
    "Vcounter8___024root \<Rightarrow> Vcounter8___024root" where
  "Vcounter8___024root___nba_sequent__TOP__0 vlSelf =
     vlSelf\<lparr>out := ucast (nba_sequent_rhs vlSelf)\<rparr>"

subsection \<open>Regions and phases\<close>

text \<open>\<^verbatim>\<open>eval_act\<close> has an empty body.\<close>

definition Vcounter8___024root___eval_act :: "Vcounter8___024root \<Rightarrow> Vcounter8___024root" where
  "Vcounter8___024root___eval_act vlSelf = vlSelf"

text \<open>
  \<^verbatim>\<open>if ((3ULL & vlSelfRef.__VnbaTriggered.word(0U))) nba_sequent__TOP__0(vlSelf);\<close>
\<close>

definition Vcounter8___024root___eval_nba :: "Vcounter8___024root \<Rightarrow> Vcounter8___024root" where
  "Vcounter8___024root___eval_nba vlSelf =
     (if 3 AND VnbaTriggered vlSelf \<noteq> 0
      then Vcounter8___024root___nba_sequent__TOP__0 vlSelf
      else vlSelf)"

text \<open>
  \<^verbatim>\<open>eval_triggers__act\<close> is declared in this file and defined in one that is not among the
  sources; it is the parameter \<open>triggers\<close>. \<^verbatim>\<open>any()\<close> of a trigger vector is its word
  being non-zero and \<^verbatim>\<open>thisOr\<close> is bitwise or. The local \<^verbatim>\<open>__VpreTriggered\<close> is computed
  and never read.
  \<^verbatim>\<open>
  eval_triggers__act(vlSelf);
  __VactExecute = vlSelfRef.__VactTriggered.any();
  if (__VactExecute) {
      __VpreTriggered.andNot(vlSelfRef.__VactTriggered, vlSelfRef.__VnbaTriggered);
      vlSelfRef.__VnbaTriggered.thisOr(vlSelfRef.__VactTriggered);
      eval_act(vlSelf);
  }
  return (__VactExecute);
  \<close>
\<close>

definition Vcounter8___024root___eval_phase__act ::
    "(Vcounter8___024root \<Rightarrow> Vcounter8___024root) \<Rightarrow> Vcounter8___024root
       \<Rightarrow> bool \<times> Vcounter8___024root" where
  "Vcounter8___024root___eval_phase__act triggers vlSelf =
     (let s1 = triggers vlSelf;
          VactExecute = (VactTriggered s1 \<noteq> 0)
      in if VactExecute
         then (True,
               Vcounter8___024root___eval_act
                 (s1\<lparr>VnbaTriggered := VnbaTriggered s1 OR VactTriggered s1\<rparr>))
         else (False, s1))"

text \<open>
  \<^verbatim>\<open>
  __VnbaExecute = vlSelfRef.__VnbaTriggered.any();
  if (__VnbaExecute) {
      eval_nba(vlSelf);
      vlSelfRef.__VnbaTriggered.clear();
  }
  return (__VnbaExecute);
  \<close>
\<close>

definition Vcounter8___024root___eval_phase__nba ::
    "Vcounter8___024root \<Rightarrow> bool \<times> Vcounter8___024root" where
  "Vcounter8___024root___eval_phase__nba vlSelf =
     (let VnbaExecute = (VnbaTriggered vlSelf \<noteq> 0)
      in if VnbaExecute
         then (True, (Vcounter8___024root___eval_nba vlSelf)\<lparr>VnbaTriggered := 0\<rparr>)
         else (False, vlSelf))"

subsection \<open>The evaluation loops\<close>

text \<open>
  \<^verbatim>\<open>VL_FATAL_MT\<close> ends the process: a run of \<^verbatim>\<open>eval\<close> yields \<open>Inl\<close> of its message, or
  \<open>Inr\<close> of the state it returns with.

  Each loop takes the number of passes it may make. A pass is one execution of the loop
  body, the convergence check at its head included. \<open>None\<close> says that the loop still
  wanted another pass when the allowance was used up.

  The inner loop, lines 100 to 113:
  \<^verbatim>\<open>
  while (vlSelfRef.__VactContinue) {
      if (VL_UNLIKELY(((0x64U < vlSelfRef.__VactIterCount)))) {
          VL_FATAL_MT("counter8.v", 1, "", "Active region did not converge.");
      }
      vlSelfRef.__VactIterCount = ((IData)(1U) + vlSelfRef.__VactIterCount);
      vlSelfRef.__VactContinue = 0U;
      if (eval_phase__act(vlSelf)) {
          vlSelfRef.__VactContinue = 1U;
      }
  }
  \<close>
\<close>

fun act_loop ::
    "(Vcounter8___024root \<Rightarrow> Vcounter8___024root) \<Rightarrow> nat \<Rightarrow> Vcounter8___024root
       \<Rightarrow> (string + Vcounter8___024root) option" where
  "act_loop triggers 0 vlSelf =
     (if VactContinue vlSelf \<noteq> 0 then None else Some (Inr vlSelf))"
| "act_loop triggers (Suc n) vlSelf =
     (if VactContinue vlSelf \<noteq> 0
      then (if 0x64 < VactIterCount vlSelf
            then Some (Inl ''Active region did not converge.'')
            else (case Vcounter8___024root___eval_phase__act triggers
                         (vlSelf\<lparr>VactIterCount := 1 + VactIterCount vlSelf,
                                  VactContinue := 0\<rparr>) of
                    (True, s) \<Rightarrow> act_loop triggers n (s\<lparr>VactContinue := 1\<rparr>)
                  | (False, s) \<Rightarrow> act_loop triggers n s))
      else Some (Inr vlSelf))"

text \<open>
  The outer loop, lines 89 to 117, with the locals \<^verbatim>\<open>__VnbaIterCount\<close> (an \<^verbatim>\<open>IData\<close>) and
  \<^verbatim>\<open>__VnbaContinue\<close> (a \<^verbatim>\<open>CData\<close>) as arguments; \<open>m\<close> is the allowance of each inner loop.
  \<^verbatim>\<open>
  while (__VnbaContinue) {
      if (VL_UNLIKELY(((0x64U < __VnbaIterCount)))) {
          VL_FATAL_MT("counter8.v", 1, "", "NBA region did not converge.");
      }
      __VnbaIterCount = ((IData)(1U) + __VnbaIterCount);
      __VnbaContinue = 0U;
      vlSelfRef.__VactIterCount = 0U;
      vlSelfRef.__VactContinue = 1U;
      while (vlSelfRef.__VactContinue) { ... }
      if (eval_phase__nba(vlSelf)) {
          __VnbaContinue = 1U;
      }
  }
  \<close>
\<close>

fun nba_loop ::
    "(Vcounter8___024root \<Rightarrow> Vcounter8___024root) \<Rightarrow> nat \<Rightarrow> nat \<Rightarrow> 32 word \<Rightarrow> 8 word
       \<Rightarrow> Vcounter8___024root \<Rightarrow> (string + Vcounter8___024root) option" where
  "nba_loop triggers m 0 VnbaIterCount VnbaContinue vlSelf =
     (if VnbaContinue \<noteq> 0 then None else Some (Inr vlSelf))"
| "nba_loop triggers m (Suc n) VnbaIterCount VnbaContinue vlSelf =
     (if VnbaContinue \<noteq> 0
      then (if 0x64 < VnbaIterCount
            then Some (Inl ''NBA region did not converge.'')
            else (case act_loop triggers m (vlSelf\<lparr>VactIterCount := 0, VactContinue := 1\<rparr>) of
                    None \<Rightarrow> None
                  | Some (Inl msg) \<Rightarrow> Some (Inl msg)
                  | Some (Inr s) \<Rightarrow>
                      (case Vcounter8___024root___eval_phase__nba s of
                         (True, s') \<Rightarrow> nba_loop triggers m n (1 + VnbaIterCount) 1 s'
                       | (False, s') \<Rightarrow> nba_loop triggers m n (1 + VnbaIterCount) 0 s')))
      else Some (Inr vlSelf))"

text \<open>
  \<^verbatim>\<open>eval\<close>: \<^verbatim>\<open>__VnbaIterCount = 0U; __VnbaContinue = 1U;\<close> and the outer loop, which may make
  \<open>n\<close> passes, each inner loop \<open>m\<close>.
\<close>

definition Vcounter8___024root___eval ::
    "(Vcounter8___024root \<Rightarrow> Vcounter8___024root) \<Rightarrow> nat \<Rightarrow> nat \<Rightarrow> Vcounter8___024root
       \<Rightarrow> (string + Vcounter8___024root) option" where
  "Vcounter8___024root___eval triggers m n vlSelf = nba_loop triggers m n 0 1 vlSelf"

subsection \<open>Instances of the trigger computation, and a state\<close>

text \<open>
  A trigger computation in the shape the texts of \<^verbatim>\<open>dump_triggers__act\<close> describe: index 0
  is \<^verbatim>\<open>@(posedge clk)\<close>, index 1 is \<^verbatim>\<open>@(negedge rst_n)\<close>; the previous values are then
  brought up to date.
\<close>

definition edge_triggers :: "Vcounter8___024root \<Rightarrow> Vcounter8___024root" where
  "edge_triggers vlSelf =
     vlSelf\<lparr>VactTriggered :=
              (if clk vlSelf AND NOT (Vtrigprevexpr___TOP__clk__0 vlSelf) AND 1 \<noteq> 0 then 1 else 0)
              OR (if NOT (rst_n vlSelf) AND Vtrigprevexpr___TOP__rst_n__0 vlSelf AND 1 \<noteq> 0
                  then 2 else 0),
            Vtrigprevexpr___TOP__clk__0 := clk vlSelf,
            Vtrigprevexpr___TOP__rst_n__0 := rst_n vlSelf\<rparr>"

text \<open>A trigger computation that raises trigger 0 every time.\<close>

definition stuck_triggers :: "Vcounter8___024root \<Rightarrow> Vcounter8___024root" where
  "stuck_triggers vlSelf = vlSelf\<lparr>VactTriggered := 1\<rparr>"

text \<open>The state after reset is released and the clock has risen, \<^verbatim>\<open>out\<close> holding 255.\<close>

definition state_255 :: Vcounter8___024root where
  "state_255 =
     \<lparr>clk = 1, rst_n = 1, out = 255,
      Vtrigprevexpr___TOP__clk__0 = 0, Vtrigprevexpr___TOP__rst_n__0 = 1,
      VactTriggered = 0, VnbaTriggered = 0, VactIterCount = 0, VactContinue = 0\<rparr>"

section \<open>Facts about strings\<close>

lemma words_from_append_blank:
  "words_from cur (x @ CHR '' '' # y) = words_from cur x @ words_from [] y"
  by (induction x arbitrary: cur) simp_all

lemma words_from_blank_free:
  "CHR '' '' \<notin> set x \<Longrightarrow> words_from cur x = (if cur @ x = [] then [] else [cur @ x])"
  by (induction x arbitrary: cur) auto

lemma blank_fields_cmd:
  "blank_fields (cmd v a)
     = [''verilator'', ''--xml-only'', ''--xml-output''] @ blank_fields a @ blank_fields v
       @ [''-Wno-fatal'']"
  by (simp add: blank_fields_def cmd_def words_from_append_blank)

lemma blank_fields_single:
  "CHR '' '' \<notin> set x \<Longrightarrow> x \<noteq> [] \<Longrightarrow> blank_fields x = [x]"
  by (simp add: blank_fields_def words_from_blank_free)

lemma c_str_append:
  "c_str (x @ y) = (if CHR 0x00 \<in> set x then c_str x else x @ c_str y)"
proof (cases "CHR 0x00 \<in> set x")
  case True
  then show ?thesis by (simp add: c_str_def takeWhile_append1 [of "CHR 0x00"])
next
  case False
  then have "\<And>c. c \<in> set x \<Longrightarrow> c \<noteq> CHR 0x00" by auto
  then show ?thesis using False by (simp add: c_str_def takeWhile_append2)
qed

lemma c_str_id: "CHR 0x00 \<notin> set s \<Longrightarrow> c_str s = s"
  by (auto simp add: c_str_def takeWhile_eq_all_conv)

lemma c_str_cmd_cut:
  "c_str (cmd v a)
     = (if CHR 0x00 \<in> set a then ''verilator --xml-only --xml-output '' @ c_str a
        else if CHR 0x00 \<in> set v then ''verilator --xml-only --xml-output '' @ a @ '' '' @ c_str v
        else cmd v a)"
proof -
  have f1: "CHR 0x00 \<notin> set ''verilator --xml-only --xml-output ''" by simp
  have f2: "CHR 0x00 \<notin> set '' ''" by simp
  have f3: "c_str '' -Wno-fatal'' = '' -Wno-fatal''" by (rule c_str_id) simp
  have shape:
    "cmd v a = ''verilator --xml-only --xml-output '' @ (a @ ('' '' @ (v @ '' -Wno-fatal'')))"
    by (simp add: cmd_def)
  have "c_str (cmd v a)
      = ''verilator --xml-only --xml-output '' @ c_str (a @ ('' '' @ (v @ '' -Wno-fatal'')))"
    unfolding shape using f1 by (simp only: c_str_append if_False)
  also have "c_str (a @ ('' '' @ (v @ '' -Wno-fatal'')))
      = (if CHR 0x00 \<in> set a then c_str a else a @ '' '' @ c_str (v @ '' -Wno-fatal''))"
    using f2 by (simp only: c_str_append [of a] c_str_append [of "'' ''"] if_False)
  also have "c_str (v @ '' -Wno-fatal'')
      = (if CHR 0x00 \<in> set v then c_str v else v @ '' -Wno-fatal'')"
    by (simp only: c_str_append f3)
  finally show ?thesis by (simp add: cmd_def)
qed

lemma c_str_cmd:
  "CHR 0x00 \<notin> set v \<Longrightarrow> CHR 0x00 \<notin> set a \<Longrightarrow> c_str (cmd v a) = cmd v a"
  by (simp add: c_str_cmd_cut)

lemma c_str_cmd_design: "c_str (cmd ''design.v'' ''ast.xml'') = cmd ''design.v'' ''ast.xml''"
  by (simp add: c_str_cmd)

lemma plain_char_not_special: "plain_char c \<Longrightarrow> c \<noteq> CHR '' '' \<and> c \<noteq> CHR 0x00"
  by (auto simp add: plain_char_def plain_chars_def)

lemma plain_path_free:
  "plain_path p \<Longrightarrow> p \<noteq> [] \<and> CHR '' '' \<notin> set p \<and> CHR 0x00 \<notin> set p"
  using plain_char_not_special by (auto simp add: plain_path_def list_all_iff)

lemma plain_path_line: "plain_path p \<Longrightarrow> plain_line p"
  by (simp add: plain_path_def plain_line_def plain_or_space_def list_all_iff)

lemma plain_line_append: "plain_line (x @ y) = (plain_line x \<and> plain_line y)"
  by (simp add: plain_line_def)

lemma plain_line_fixed:
  "plain_line ''verilator --xml-only --xml-output ''" "plain_line '' ''"
  "plain_line '' -Wno-fatal''"
  by (simp_all add: plain_line_def plain_or_space_def plain_char_def plain_chars_def)

lemma plain_line_cmd: "plain_path v \<Longrightarrow> plain_path a \<Longrightarrow> plain_line (cmd v a)"
  unfolding cmd_def by (simp only: plain_line_append plain_line_fixed plain_path_line simp_thms)

section \<open>How the elaborator is invoked\<close>

text \<open>
  C1, as the code has it. Every call of \<^verbatim>\<open>runVerilatorAST\<close> reaches the operating system
  through exactly one \<^verbatim>\<open>std::system\<close> call, which hands one string to the command
  processor: \<^verbatim>\<open>cmd.c_str()\<close>, that is the concatenation up to its first NUL byte (cut
  inside the output path, or inside the source path, or not at all). The output path and
  the source path are not passed as tokens of their own: for paths without a NUL byte the
  space-separated words of the string handed over are the three fixed words, then the
  words of the output path, then the words of the source path, then \<^verbatim>\<open>-Wno-fatal\<close>.
\<close>

theorem runVerilatorAST_one_shell_command:
  "filter invokes_shell (snd (runVerilatorAST w verilogFile astXmlFile))
     = [System (c_str (cmd verilogFile astXmlFile))]
   \<and> c_str (cmd verilogFile astXmlFile)
     = (if CHR 0x00 \<in> set astXmlFile
        then ''verilator --xml-only --xml-output '' @ c_str astXmlFile
        else if CHR 0x00 \<in> set verilogFile
        then ''verilator --xml-only --xml-output '' @ astXmlFile @ '' '' @ c_str verilogFile
        else cmd verilogFile astXmlFile)
   \<and> (CHR 0x00 \<notin> set verilogFile \<and> CHR 0x00 \<notin> set astXmlFile \<longrightarrow>
        blank_fields (c_str (cmd verilogFile astXmlFile))
          = [''verilator'', ''--xml-only'', ''--xml-output'']
            @ blank_fields astXmlFile @ blank_fields verilogFile @ [''-Wno-fatal''])"
proof -
  have one: "filter invokes_shell (snd (runVerilatorAST w verilogFile astXmlFile))
     = [System (c_str (cmd verilogFile astXmlFile))]"
    by (simp add: runVerilatorAST_def Let_def)
  have cut: "c_str (cmd verilogFile astXmlFile)
     = (if CHR 0x00 \<in> set astXmlFile
        then ''verilator --xml-only --xml-output '' @ c_str astXmlFile
        else if CHR 0x00 \<in> set verilogFile
        then ''verilator --xml-only --xml-output '' @ astXmlFile @ '' '' @ c_str verilogFile
        else cmd verilogFile astXmlFile)"
    by (rule c_str_cmd_cut)
  have wds: "CHR 0x00 \<notin> set verilogFile \<and> CHR 0x00 \<notin> set astXmlFile \<longrightarrow>
        blank_fields (c_str (cmd verilogFile astXmlFile))
          = [''verilator'', ''--xml-only'', ''--xml-output'']
            @ blank_fields astXmlFile @ blank_fields verilogFile @ [''-Wno-fatal'']"
    by (simp add: c_str_cmd blank_fields_cmd)
  from one cut wds show ?thesis by (intro conjI)
qed

theorem runVerilatorAST_one_shell_command_witness:
  "CHR 0x00 \<notin> set ''design.v'' \<and> CHR 0x00 \<notin> set ''ast.xml''
   \<and> filter invokes_shell (snd (runVerilatorAST world_ok ''design.v'' ''ast.xml''))
     = [System ''verilator --xml-only --xml-output ast.xml design.v -Wno-fatal'']
   \<and> blank_fields (c_str (cmd ''design.v'' ''ast.xml''))
     = [''verilator'', ''--xml-only'', ''--xml-output'', ''ast.xml'', ''design.v'', ''-Wno-fatal'']
   \<and> filter invokes_shell (snd (runVerilatorAST world_ok path_with_NUL ''ast.xml''))
     = [System ''verilator --xml-only --xml-output ast.xml a'']"
proof -
  have d: "cmd ''design.v'' ''ast.xml''
     = ''verilator --xml-only --xml-output ast.xml design.v -Wno-fatal''"
    by (simp add: cmd_def)
  have w: "blank_fields ''ast.xml'' = [''ast.xml'']" "blank_fields ''design.v'' = [''design.v'']"
    by (simp_all add: blank_fields_def)
  have n: "c_str path_with_NUL = ''a''" "CHR 0x00 \<in> set path_with_NUL"
    by (simp_all add: c_str_def path_with_NUL_def)
  from runVerilatorAST_one_shell_command [of world_ok "''design.v''" "''ast.xml''"]
    runVerilatorAST_one_shell_command [of world_ok path_with_NUL "''ast.xml''"] d w n
  show ?thesis by (simp add: blank_fields_def)
qed

text \<open>
  C1 as stated (no shell is invoked, each argument is a distinct token) fails for the
  source file \<^verbatim>\<open>my design.v\<close>: the call goes through \<^verbatim>\<open>std::system\<close>, and in the string
  handed over the path is the two words \<^verbatim>\<open>my\<close> and \<^verbatim>\<open>design.v\<close>.
\<close>

theorem no_shell_counterexample:
  "list_ex invokes_shell (snd (runVerilatorAST world_ok ''my design.v'' ''ast.xml''))
   \<and> snd (runVerilatorAST world_ok ''my design.v'' ''ast.xml'')
     = [System ''verilator --xml-only --xml-output ast.xml my design.v -Wno-fatal'']
   \<and> blank_fields (cmd ''my design.v'' ''ast.xml'')
     = [''verilator'', ''--xml-only'', ''--xml-output'', ''ast.xml'', ''my'', ''design.v'',
        ''-Wno-fatal'']"
  by (simp add: runVerilatorAST_def Let_def cmd_def c_str_def blank_fields_def world_ok_def
      world_bad_markup_def)

section \<open>The order of the arguments\<close>

text \<open>
  C2, as the code has it. For plain paths (non-empty, of letters, digits and
  \<^verbatim>\<open>.\<close>, \<^verbatim>\<open>_\<close>, \<^verbatim>\<open>/\<close>, \<^verbatim>\<open>-\<close> only) the string handed to \<^verbatim>\<open>std::system\<close> is the whole
  concatenation, it is a plain line (nothing in it but such characters and spaces), and
  its space-separated words are, in this order: the executable name \<^verbatim>\<open>verilator\<close>,
  \<^verbatim>\<open>--xml-only\<close>, \<^verbatim>\<open>--xml-output\<close>, the output path, the source path, and \<^verbatim>\<open>-Wno-fatal\<close>
  last. The flag \<^verbatim>\<open>-Wno-fatal\<close> is always there and there are no extra flags.
\<close>

theorem cmd_argument_order:
  assumes "plain_path verilogFile" and "plain_path astXmlFile"
  shows "hd (snd (runVerilatorAST w verilogFile astXmlFile)) = System (cmd verilogFile astXmlFile)
   \<and> plain_line (cmd verilogFile astXmlFile)
   \<and> blank_fields (cmd verilogFile astXmlFile)
     = [''verilator'', ''--xml-only'', ''--xml-output'', astXmlFile, verilogFile, ''-Wno-fatal'']"
proof -
  from assms have v: "verilogFile \<noteq> []" "CHR '' '' \<notin> set verilogFile"
      "CHR 0x00 \<notin> set verilogFile"
    and a: "astXmlFile \<noteq> []" "CHR '' '' \<notin> set astXmlFile" "CHR 0x00 \<notin> set astXmlFile"
    by (simp_all add: plain_path_free)
  have "hd (snd (runVerilatorAST w verilogFile astXmlFile)) = System (cmd verilogFile astXmlFile)"
    using v a by (simp add: runVerilatorAST_def Let_def c_str_cmd)
  moreover have "plain_line (cmd verilogFile astXmlFile)"
    using assms by (rule plain_line_cmd)
  moreover have "blank_fields (cmd verilogFile astXmlFile)
     = [''verilator'', ''--xml-only'', ''--xml-output'', astXmlFile, verilogFile, ''-Wno-fatal'']"
    using v a by (simp add: blank_fields_cmd blank_fields_single)
  ultimately show ?thesis by (intro conjI)
qed

theorem cmd_argument_order_witness:
  "plain_path ''design.v'' \<and> plain_path ''ast.xml''
   \<and> hd (snd (runVerilatorAST world_ok ''design.v'' ''ast.xml''))
     = System ''verilator --xml-only --xml-output ast.xml design.v -Wno-fatal''
   \<and> plain_line ''verilator --xml-only --xml-output ast.xml design.v -Wno-fatal''
   \<and> blank_fields ''verilator --xml-only --xml-output ast.xml design.v -Wno-fatal''
     = [''verilator'', ''--xml-only'', ''--xml-output'', ''ast.xml'', ''design.v'', ''-Wno-fatal'']"
proof -
  have p: "plain_path ''design.v''" "plain_path ''ast.xml''"
    by (simp_all add: plain_path_def plain_char_def plain_chars_def)
  have d: "cmd ''design.v'' ''ast.xml''
     = ''verilator --xml-only --xml-output ast.xml design.v -Wno-fatal''"
    by (simp add: cmd_def)
  from cmd_argument_order [OF p, of world_ok] p d show ?thesis by simp
qed

text \<open>
  C2 as stated (the conditional flag before the source path, the source path last) fails
  for \<^verbatim>\<open>design.v\<close> and \<^verbatim>\<open>ast.xml\<close>: the command line ends in \<^verbatim>\<open>-Wno-fatal\<close>, after the
  source path, and differs from the sequence in the specification's order.
\<close>

theorem argument_order_counterexample:
  "blank_fields (cmd (source_path config_design) (output_path config_design))
     = [''verilator'', ''--xml-only'', ''--xml-output'', ''ast.xml'', ''design.v'', ''-Wno-fatal'']
   \<and> spec_argv config_design
     = [''verilator'', ''--xml-only'', ''--xml-output'', ''ast.xml'', ''-Wno-fatal'', ''design.v'']
   \<and> blank_fields (cmd (source_path config_design) (output_path config_design))
     \<noteq> spec_argv config_design
   \<and> last (blank_fields (cmd (source_path config_design) (output_path config_design)))
     = ''-Wno-fatal''"
  by (simp add: config_design_def spec_argv_def cmd_def blank_fields_def)

section \<open>Elaboration succeeds exactly when the command processor reports 0\<close>




section \<open>What a failed elaboration reports\<close>

text \<open>
  C4, as the code has it. When \<^verbatim>\<open>std::system\<close> returns a non-zero status, nothing is
  classified: the run writes \<^verbatim>\<open>Verilator failed with exit code\<close> followed by that status
  to \<^verbatim>\<open>std::cerr\<close> and ends with \<^verbatim>\<open>return 1\<close>, whatever the elaborator printed.
\<close>

theorem elaborator_failure_report:
  assumes "system_ret w (cmd ''design.v'' ''ast.xml'') \<noteq> 0"
  shows "pipeline w
     = (Return 1,
        [System (cmd ''design.v'' ''ast.xml''),
         Cerr [Str ''Verilator failed with exit code '',
               Num (system_ret w (cmd ''design.v'' ''ast.xml'')), Endl]])"
  using assms by (simp add: pipeline_def runVerilatorAST_def Let_def c_str_cmd_design)

theorem elaborator_failure_report_witness:
  "system_ret world_fail_diag (cmd ''design.v'' ''ast.xml'') \<noteq> 0
   \<and> pipeline world_fail_diag
     = (Return 1,
        [System ''verilator --xml-only --xml-output ast.xml design.v -Wno-fatal'',
         Cerr [Str ''Verilator failed with exit code '', Num 1, Endl]])"
  using elaborator_failure_report [of world_fail_diag]
  by (simp add: world_fail_diag_def cmd_def)

text \<open>
  C4 as stated (the failure is sorted by the elaborator's diagnostics) fails: two runs with
  exit status 1, one with an error line on the elaborator's standard error and one with
  none, fall into different kinds in the specification's sorting, and the program does the
  same in both; what it reports holds the status and none of the diagnostics.
\<close>

theorem classification_counterexample:
  "system_ret world_fail_diag (cmd ''design.v'' ''ast.xml'') = 1
   \<and> system_ret world_fail_silent (cmd ''design.v'' ''ast.xml'') = 1
   \<and> spec_classify is_error_line 1 (child_stderr world_fail_diag (cmd ''design.v'' ''ast.xml''))
     = ElaboratorError [''%Error: design.v:3:1: syntax error, unexpected endmodule'']
   \<and> spec_classify is_error_line 1 (child_stderr world_fail_silent (cmd ''design.v'' ''ast.xml''))
     = ElaboratorCrashed 1
   \<and> pipeline world_fail_diag = pipeline world_fail_silent
   \<and> pipeline world_fail_diag
     = (Return 1,
        [System ''verilator --xml-only --xml-output ast.xml design.v -Wno-fatal'',
         Cerr [Str ''Verilator failed with exit code '', Num 1, Endl]])"
  by (simp add: world_fail_diag_def world_fail_silent_def spec_classify_def is_error_line_def
      pipeline_def runVerilatorAST_def Let_def cmd_def c_str_def)

section \<open>The order of the stages\<close>

text \<open>
  C6. The stages run in order and a failed elaboration ends the run: when the status of
  the elaborator is not 0 the run ends with \<^verbatim>\<open>return 1\<close> and never calls \<^verbatim>\<open>LoadFile\<close>;
  when \<^verbatim>\<open>LoadFile\<close> is called, the status was 0 and the only action before it is the
  \<^verbatim>\<open>std::system\<close> call of the elaborator, which is the first action of every run.
\<close>

theorem pipeline_stage_order:
  "(system_ret w (cmd ''design.v'' ''ast.xml'') \<noteq> 0 \<longrightarrow>
      fst (pipeline w) = Return 1 \<and> \<not> list_ex is_LoadFile (snd (pipeline w)))
   \<and> (list_ex is_LoadFile (snd (pipeline w)) \<longrightarrow>
      system_ret w (cmd ''design.v'' ''ast.xml'') = 0
      \<and> takeWhile (\<lambda>e. \<not> is_LoadFile e) (snd (pipeline w))
          = [System (cmd ''design.v'' ''ast.xml'')])
   \<and> hd (snd (pipeline w)) = System (cmd ''design.v'' ''ast.xml'')"
  by (simp add: pipeline_def runVerilatorAST_def Let_def c_str_cmd_design)

theorem pipeline_stage_order_witness:
  "system_ret world_fail_silent (cmd ''design.v'' ''ast.xml'') \<noteq> 0
   \<and> fst (pipeline world_fail_silent) = Return 1
   \<and> \<not> list_ex is_LoadFile (snd (pipeline world_fail_silent))
   \<and> list_ex is_LoadFile (snd (pipeline world_ok))
   \<and> system_ret world_ok (cmd ''design.v'' ''ast.xml'') = 0
   \<and> takeWhile (\<lambda>e. \<not> is_LoadFile e) (snd (pipeline world_ok))
       = [System (cmd ''design.v'' ''ast.xml'')]"
proof -
  have f: "system_ret world_fail_silent (cmd ''design.v'' ''ast.xml'') \<noteq> 0"
    by (simp add: world_fail_silent_def world_fail_diag_def)
  have l: "list_ex is_LoadFile (snd (pipeline world_ok))"
    by (simp add: world_ok_def world_bad_markup_def pipeline_def runVerilatorAST_def Let_def)
  from f l pipeline_stage_order [of world_fail_silent] pipeline_stage_order [of world_ok]
  show ?thesis by simp
qed

section \<open>A source file that does not exist\<close>

text \<open>
  C7, as the code has it. \<^verbatim>\<open>runVerilatorAST\<close> makes no check before it starts the
  elaborator: whether or not the source file exists, its first action is the
  \<^verbatim>\<open>std::system\<close> call on \<^verbatim>\<open>cmd.c_str()\<close>, and what it does and returns does not depend on
  which files exist.
\<close>

theorem runVerilatorAST_no_preflight:
  "hd (snd (runVerilatorAST w verilogFile astXmlFile))
     = System (c_str (cmd verilogFile astXmlFile))
   \<and> runVerilatorAST (w\<lparr>file_exists := ex\<rparr>) verilogFile astXmlFile
     = runVerilatorAST w verilogFile astXmlFile"
  by (simp add: runVerilatorAST_def Let_def)

text \<open>
  C7 as stated (a missing source is refused before any child is started) fails for
  \<^verbatim>\<open>/nonexistent.v\<close>: the file does not exist, the elaborator is started all the same, and
  the failure reported is its exit status.
\<close>

theorem missing_source_counterexample:
  "\<not> file_exists world_missing ''/nonexistent.v''
   \<and> runVerilatorAST world_missing ''/nonexistent.v'' ''ast.xml''
     = (False,
        [System ''verilator --xml-only --xml-output ast.xml /nonexistent.v -Wno-fatal'',
         Cerr [Str ''Verilator failed with exit code '', Num 1, Endl]])"
  by (simp add: world_missing_def world_fail_silent_def world_fail_diag_def
      runVerilatorAST_def Let_def cmd_def c_str_def)

section \<open>Markup that does not load\<close>

text \<open>
  C8, as the code has it. When the elaborator has succeeded and \<^verbatim>\<open>LoadFile\<close> returns
  anything but \<^verbatim>\<open>XML_SUCCESS\<close>, the run writes
  \<^verbatim>\<open>Error: could not load AST XML (error N)\<close> to \<^verbatim>\<open>std::cerr\<close>, where N is the error code
  that \<^verbatim>\<open>LoadFile\<close> returned, and ends with \<^verbatim>\<open>return 1\<close>; it does not go on with the document.
  No line or column is reported.
\<close>

theorem load_failure_report:
  assumes "system_ret w (cmd ''design.v'' ''ast.xml'') = 0"
    and "LoadFile_ret w ''ast.xml'' \<noteq> XML_SUCCESS"
  shows "pipeline w
     = (Return 1,
        [System (cmd ''design.v'' ''ast.xml''), LoadFile ''ast.xml'',
         Cerr [Str ''Error: could not load AST XML (error '', Num (LoadFile_ret w ''ast.xml''),
               Str [CHR '')'', CHR 0x0A]]])"
  using assms by (simp add: pipeline_def runVerilatorAST_def Let_def c_str_cmd_design)

theorem load_failure_report_witness:
  "system_ret world_bad_markup (cmd ''design.v'' ''ast.xml'') = 0
   \<and> LoadFile_ret world_bad_markup ''ast.xml'' \<noteq> XML_SUCCESS
   \<and> pipeline world_bad_markup
     = (Return 1,
        [System ''verilator --xml-only --xml-output ast.xml design.v -Wno-fatal'',
         LoadFile ''ast.xml'',
         Cerr [Str ''Error: could not load AST XML (error '', Num 6,
               Str [CHR '')'', CHR 0x0A]]])"
  using load_failure_report [of world_bad_markup]
  by (simp add: world_bad_markup_def XML_SUCCESS_def cmd_def)

text \<open>
  C8 as stated (the failure carries the parser's line and column) fails: two runs whose
  markup stops the parser with the same error code at different places, line 3 column 14
  and line 7 column 2, end in the same result, which holds the error code only.
\<close>

theorem parse_position_counterexample:
  "LoadFile_ret world_bad_markup ''ast.xml'' = 6
   \<and> LoadFile_errpos world_bad_markup ''ast.xml'' = (3, 14)
   \<and> LoadFile_ret world_bad_markup' ''ast.xml'' = 6
   \<and> LoadFile_errpos world_bad_markup' ''ast.xml'' = (7, 2)
   \<and> pipeline world_bad_markup = pipeline world_bad_markup'
   \<and> pipeline world_bad_markup
     = (Return 1,
        [System ''verilator --xml-only --xml-output ast.xml design.v -Wno-fatal'',
         LoadFile ''ast.xml'',
         Cerr [Str ''Error: could not load AST XML (error '', Num 6,
               Str [CHR '')'', CHR 0x0A]]])"
  by (simp add: world_bad_markup_def world_bad_markup'_def XML_SUCCESS_def
      pipeline_def runVerilatorAST_def Let_def cmd_def c_str_def)

section \<open>The sequential update of counter8\<close>

lemma and_ff_take_bit: "(0xff AND x :: 32 word) = take_bit 8 x"
proof -
  have "(0xff :: 32 word) = mask 8" by (simp add: mask_eq_exp_minus_1)
  then show ?thesis by (simp add: take_bit_eq_mask and.commute)
qed

lemma unat_and_ff: "unat (0xff AND x :: 32 word) = unat x mod 256"
proof -
  have "unat (take_bit 8 x) = take_bit 8 (unat x)" by (rule unsigned_take_bit_eq)
  then show ?thesis by (simp add: and_ff_take_bit take_bit_eq_mod)
qed

lemma unat_ucast_8_32: "unat (ucast (b :: 8 word) :: 32 word) = unat b"
proof -
  have "unat b < 2 ^ 8" using unsigned_less [of b] by simp
  then have lt: "unat b < 2 ^ 32" by simp
  have "unat (ucast b :: 32 word) = take_bit 32 (unat b)"
    using unsigned_ucast_eq [of b, where 'c = 32 and 'a = nat] by simp
  with lt show ?thesis by (simp add: take_bit_nat_eq_self)
qed

lemma ucast_8_32_zero_iff: "((ucast (b :: 8 word) :: 32 word) = 0) = (b = 0)"
proof -
  have "((ucast b :: 32 word) = 0) = (unat (ucast b :: 32 word) = 0)" by (simp add: unat_0_iff)
  also have "\<dots> = (unat b = 0)" by (simp only: unat_ucast_8_32)
  also have "\<dots> = (b = 0)" by (simp add: unat_0_iff)
  finally show ?thesis .
qed

lemma unat_succ_ucast: "unat (1 + (ucast (b :: 8 word) :: 32 word)) = unat b + 1"
proof -
  have "unat b < 2 ^ 8" using unsigned_less [of b] by simp
  then have "unat (1 :: 32 word) + unat (ucast b :: 32 word) < 2 ^ LENGTH(32)"
    by (simp add: unat_ucast_8_32)
  then have "unat (1 + (ucast b :: 32 word)) = unat (1 :: 32 word) + unat (ucast b :: 32 word)"
    by (simp only: unat_add_lem [THEN iffD1])
  then show ?thesis by (simp add: unat_ucast_8_32)
qed

lemma unat_ucast_32_8: "unat (ucast (x :: 32 word) :: 8 word) = unat x mod 256"
proof -
  have "unat (ucast x :: 8 word) = take_bit 8 (unat x)"
    using unsigned_ucast_eq [of x, where 'c = 8 and 'a = nat] by simp
  then show ?thesis by (simp add: take_bit_eq_mod)
qed

lemma nba_sequent_rhs_value:
  "unat (nba_sequent_rhs s) = (if rst_n s \<noteq> 0 then (unat (out s) + 1) mod 256 else 0)"
  by (simp add: nba_sequent_rhs_def unat_and_ff unat_succ_ucast ucast_8_32_zero_iff)

text \<open>
  C9. One execution of \<^verbatim>\<open>nba_sequent__TOP__0\<close> sets \<^verbatim>\<open>out\<close> to \<open>(out + 1) mod 256\<close> when
  \<^verbatim>\<open>rst_n\<close> is non-zero and to 0 when \<^verbatim>\<open>rst_n\<close> is zero. The 32-bit value computed on the
  right-hand side is already below 256 (it is masked with \<^verbatim>\<open>0xff\<close>), so storing it in the
  8-bit field loses nothing, and the value held in \<^verbatim>\<open>out\<close> afterwards is below 256.
\<close>

theorem nba_sequent_out:
  "unat (out (Vcounter8___024root___nba_sequent__TOP__0 s))
     = (if rst_n s \<noteq> 0 then (unat (out s) + 1) mod 256 else 0)
   \<and> unat (nba_sequent_rhs s) < 256
   \<and> unat (out (Vcounter8___024root___nba_sequent__TOP__0 s)) = unat (nba_sequent_rhs s)
   \<and> unat (out (Vcounter8___024root___nba_sequent__TOP__0 s)) < 256"
proof -
  have v: "unat (nba_sequent_rhs s) = (if rst_n s \<noteq> 0 then (unat (out s) + 1) mod 256 else 0)"
    by (rule nba_sequent_rhs_value)
  then have lt: "unat (nba_sequent_rhs s) < 256" by simp
  have o: "unat (out (Vcounter8___024root___nba_sequent__TOP__0 s)) = unat (nba_sequent_rhs s)"
    using lt by (simp add: Vcounter8___024root___nba_sequent__TOP__0_def unat_ucast_32_8)
  from v lt o show ?thesis by simp
qed

theorem nba_sequent_out_witness:
  "unat (out state_255) = 255 \<and> rst_n state_255 \<noteq> 0
   \<and> unat (out (Vcounter8___024root___nba_sequent__TOP__0 state_255)) = 0
   \<and> unat (out (Vcounter8___024root___nba_sequent__TOP__0 (state_255\<lparr>out := 41\<rparr>))) = 42
   \<and> unat (out (Vcounter8___024root___nba_sequent__TOP__0 (state_255\<lparr>rst_n := 0\<rparr>))) = 0"
  using nba_sequent_out [of state_255] nba_sequent_out [of "state_255\<lparr>out := 41\<rparr>"]
    nba_sequent_out [of "state_255\<lparr>rst_n := 0\<rparr>"]
  by (simp add: state_255_def)

section \<open>Termination of the evaluation loops\<close>

lemma unat_succ_below:
  fixes c :: "32 word"
  assumes "\<not> 0x64 < c"
  shows "unat (1 + c) = Suc (unat c)"
proof -
  from assms have le: "unat c \<le> 100" by (simp add: word_less_nat_alt)
  then have "unat (1 :: 32 word) + unat c < 2 ^ LENGTH(32)" by simp
  then have "unat (1 + c) = unat (1 :: 32 word) + unat c"
    by (simp only: unat_add_lem [THEN iffD1])
  then show ?thesis by simp
qed

text \<open>
  A phase of the active region leaves \<^verbatim>\<open>__VactIterCount\<close> alone when the trigger
  computation does.
\<close>

lemma eval_phase__act_count:
  assumes "\<And>s. VactIterCount (triggers s) = VactIterCount s"
  shows "VactIterCount (snd (Vcounter8___024root___eval_phase__act triggers s)) = VactIterCount s"
  using assms
  by (simp add: Vcounter8___024root___eval_phase__act_def Vcounter8___024root___eval_act_def
      Let_def)

text \<open>
  The inner loop started with the counter at \<open>c \<le> 101\<close> is through after \<open>102 - c\<close>
  passes at most: every pass that does not abort raises the counter by one, and the pass
  that finds it at 101 aborts.
\<close>

lemma act_loop_returns:
  assumes frame: "\<And>s. VactIterCount (triggers s) = VactIterCount s"
  shows "unat (VactIterCount s) \<le> 101 \<Longrightarrow> 102 \<le> unat (VactIterCount s) + n
           \<Longrightarrow> \<exists>r. act_loop triggers n s = Some r"
proof (induction n arbitrary: s)
  case 0
  then show ?case by simp
next
  case (Suc n)
  show ?case
  proof (cases "VactContinue s \<noteq> 0 \<and> \<not> 0x64 < VactIterCount s")
    case False
    then show ?thesis by auto
  next
    case True
    let ?s1 = "s\<lparr>VactIterCount := 1 + VactIterCount s, VactContinue := 0\<rparr>"
    obtain b s2 where ph: "Vcounter8___024root___eval_phase__act triggers ?s1 = (b, s2)"
      by (cases "Vcounter8___024root___eval_phase__act triggers ?s1")
    have "VactIterCount s2 = VactIterCount ?s1"
      using eval_phase__act_count [OF frame, of ?s1] ph by simp
    then have cnt: "unat (VactIterCount s2) = Suc (unat (VactIterCount s))"
      using True by (simp add: unat_succ_below)
    from True have "unat (VactIterCount s) \<le> 100" by (simp add: word_less_nat_alt)
    with cnt Suc.prems have b1: "unat (VactIterCount s2) \<le> 101"
      and b2: "102 \<le> unat (VactIterCount s2) + n" by simp_all
    have r1: "\<exists>r. act_loop triggers n s2 = Some r" using Suc.IH [of s2] b1 b2 by simp
    have r2: "\<exists>r. act_loop triggers n (s2\<lparr>VactContinue := 1\<rparr>) = Some r"
      using Suc.IH [of "s2\<lparr>VactContinue := 1\<rparr>"] b1 b2 by simp
    from True ph r1 r2 show ?thesis by (cases b) simp_all
  qed
qed

text \<open>The same for the outer loop and its local counter, each inner loop being given 102.\<close>

lemma nba_loop_returns:
  assumes frame: "\<And>s. VactIterCount (triggers s) = VactIterCount s"
  shows "unat c \<le> 101 \<Longrightarrow> 102 \<le> unat c + n
           \<Longrightarrow> \<exists>r. nba_loop triggers 102 n c k s = Some r"
proof (induction n arbitrary: c k s)
  case 0
  then show ?case by simp
next
  case (Suc n)
  show ?case
  proof (cases "k \<noteq> 0 \<and> \<not> 0x64 < c")
    case False
    then show ?thesis by auto
  next
    case True
    let ?s0 = "s\<lparr>VactIterCount := 0, VactContinue := 1\<rparr>"
    have "\<exists>r. act_loop triggers 102 ?s0 = Some r"
      using act_loop_returns [OF frame, of ?s0 102] by simp
    then obtain r where inner: "act_loop triggers 102 ?s0 = Some r" ..
    from True have "unat c \<le> 100" by (simp add: word_less_nat_alt)
    with True Suc.prems have b1: "unat (1 + c) \<le> 101" and b2: "102 \<le> unat (1 + c) + n"
      by (simp_all add: unat_succ_below)
    show ?thesis
    proof (cases r)
      case (Inl msg)
      with True inner show ?thesis by simp
    next
      case (Inr s1)
      obtain b s2 where ph: "Vcounter8___024root___eval_phase__nba s1 = (b, s2)"
        by (cases "Vcounter8___024root___eval_phase__nba s1")
      have "\<exists>r. nba_loop triggers 102 n (1 + c) 1 s2 = Some r"
        and "\<exists>r. nba_loop triggers 102 n (1 + c) 0 s2 = Some r"
        using Suc.IH b1 b2 by simp_all
      with True inner Inr ph show ?thesis by (cases b) simp_all
    qed
  qed
qed

text \<open>
  C10. \<^verbatim>\<open>eval\<close> terminates, by returning or by the fatal abort: 102 passes of the outer
  loop, each with 102 passes of the inner loop, are always enough, from every state. The
  trigger computation is any function of the state that leaves \<^verbatim>\<open>__VactIterCount\<close> as it
  finds it.
\<close>

theorem eval_terminates:
  assumes "\<And>s. VactIterCount (triggers s) = VactIterCount s"
  shows "(\<exists>r. Vcounter8___024root___eval triggers 102 102 vlSelf = Some r)
       \<and> (\<exists>r. act_loop triggers 102 (vlSelf\<lparr>VactIterCount := 0, VactContinue := 1\<rparr>) = Some r)"
proof
  show "\<exists>r. Vcounter8___024root___eval triggers 102 102 vlSelf = Some r"
    unfolding Vcounter8___024root___eval_def
    using nba_loop_returns [OF assms, of 0 102 1 vlSelf] by simp
  show "\<exists>r. act_loop triggers 102 (vlSelf\<lparr>VactIterCount := 0, VactContinue := 1\<rparr>) = Some r"
    using act_loop_returns [OF assms, of "vlSelf\<lparr>VactIterCount := 0, VactContinue := 1\<rparr>" 102]
    by simp
qed

theorem eval_terminates_witness:
  "(\<forall>s. VactIterCount (edge_triggers s) = VactIterCount s)
   \<and> (\<exists>r. Vcounter8___024root___eval edge_triggers 102 102 state_255 = Some r)
   \<and> (\<exists>r. act_loop edge_triggers 102 (state_255\<lparr>VactIterCount := 0, VactContinue := 1\<rparr>)
           = Some r)"
proof -
  have h: "\<And>s. VactIterCount (edge_triggers s) = VactIterCount s"
    by (simp add: edge_triggers_def)
  show ?thesis using h eval_terminates [of edge_triggers state_255, OF h] by simp
qed

text \<open>
  Two runs. With the edge triggers, a rising clock takes \<^verbatim>\<open>out\<close> from 255 to 0 and \<^verbatim>\<open>eval\<close>
  returns. With a trigger that never settles, the inner loop is not through after 101
  passes, and the 102nd is the abort: the bound of 102 is reached.
\<close>

lemma eval_rising_clock:
  "Vcounter8___024root___eval edge_triggers 102 102 state_255
     = Some (Inr (state_255\<lparr>out := 0, Vtrigprevexpr___TOP__clk__0 := 1, VactIterCount := 1\<rparr>))"
  by code_simp

lemma act_loop_101_not_enough:
  "act_loop stuck_triggers 101 (state_255\<lparr>VactContinue := 1\<rparr>) = None"
  by code_simp

lemma act_loop_102_aborts:
  "act_loop stuck_triggers 102 (state_255\<lparr>VactContinue := 1\<rparr>)
     = Some (Inl ''Active region did not converge.'')"
  by code_simp

end
